theory Spec2Isabelle
  imports Complex_Main "HOL-Library.Word"
begin

unbundle bit_operations_syntax

section \<open>Values, errors and byte strings\<close>

text \<open>
  The module under study is \<^verbatim>\<open>zigpy/zcl/clusters/general.py\<close>. Two of its classes carry
  behaviour: \<^verbatim>\<open>Ota\<close> (firmware image negotiation) and \<^verbatim>\<open>GreenPowerProxy\<close> (ingestion of
  green power frames). Python objects are modelled by records, dictionaries by maps,
  exceptions by the left summand of a sum type. An operation that mutates objects returns
  the outcome together with the objects after the call, so that the state left behind by a
  raised exception is part of the model.
\<close>

type_synonym byte = "8 word"

datatype error =
    IndexError | KeyError | ValueError | TypeError | AttributeError
  | OverflowError | AssertionError | ZeroDivisionError | DeliveryError

text \<open>The Python values that are stored in attribute caches or passed as command arguments.\<close>

datatype pyval = PNone | PInt int | PBytes "byte list" | PStr string

text \<open>\<^verbatim>\<open>int.from_bytes(bs, byteorder="little")\<close>\<close>

fun from_bytes_le :: "byte list \<Rightarrow> int" where
  "from_bytes_le [] = 0"
| "from_bytes_le (b # bs) = uint b + 256 * from_bytes_le bs"

text \<open>
  \<^verbatim>\<open>x.to_bytes(n, "little")\<close>: OverflowError for a negative \<open>x\<close> and for an \<open>x\<close> that does
  not fit in \<open>n\<close> bytes.
\<close>

fun le_digits :: "nat \<Rightarrow> int \<Rightarrow> byte list" where
  "le_digits 0 x = []"
| "le_digits (Suc n) x = word_of_int x # le_digits n (x div 256)"

definition to_bytes_le :: "int \<Rightarrow> nat \<Rightarrow> error + byte list" where
  "to_bytes_le x n = (if x < 0 \<or> 256 ^ n \<le> x then Inl OverflowError else Inr (le_digits n x))"

definition to_bytes_be :: "int \<Rightarrow> nat \<Rightarrow> error + byte list" where
  "to_bytes_be x n = (if x < 0 \<or> 256 ^ n \<le> x then Inl OverflowError else Inr (rev (le_digits n x)))"

section \<open>The OTA upgrade cluster\<close>

text \<open>
  The image provider (\<^verbatim>\<open>application.ota\<close>) and the image class are collaborators outside
  this module. An image is a record of the fields the handlers read; the provider's lookup,
  the image's eligibility predicate \<^verbatim>\<open>should_update\<close> and its byte extraction
  \<^verbatim>\<open>get_image_block\<close> are parameters.
\<close>

datatype status = SUCCESS | ABORT | MALFORMED_COMMAND | NO_IMAGE_AVAILABLE

record image_key =
  manufacturer_id :: nat
  image_type :: nat

record image_header =
  image_size :: nat

record ota_image =
  img_key :: image_key
  img_version :: nat
  img_header :: image_header

record ota_provider =
  get_ota_image :: "nat \<Rightarrow> nat \<Rightarrow> ota_image option"
  should_update :: "ota_image \<Rightarrow> nat \<Rightarrow> nat \<Rightarrow> nat \<Rightarrow> nat option \<Rightarrow> bool"
  get_image_block :: "ota_image \<Rightarrow> nat \<Rightarrow> nat \<Rightarrow> error + byte list"

text \<open>
  The replies sent to the peer. The first argument is the transaction sequence number, the
  second the status; the remaining positional arguments are present or absent together.
\<close>

datatype ota_response =
    query_next_image_response nat status "(nat \<times> nat \<times> nat \<times> nat) option"
  | image_block_response nat status "(nat \<times> nat \<times> nat \<times> nat \<times> byte list) option"
  | upgrade_end_response nat nat nat nat nat nat

definition handle_query_next_image ::
  "ota_provider \<Rightarrow> nat \<Rightarrow> nat \<Rightarrow> nat \<Rightarrow> nat \<Rightarrow> nat option \<Rightarrow> nat \<Rightarrow> ota_response" where
  "handle_query_next_image ota field_ctrl manuf itype current_file_version hardware_version tsn =
     (case get_ota_image ota manuf itype of
        Some img \<Rightarrow>
          if should_update ota img manuf itype current_file_version hardware_version
          then query_next_image_response tsn SUCCESS
                 (Some (manufacturer_id (img_key img), image_type (img_key img),
                        img_version img, image_size (img_header img)))
          else query_next_image_response tsn NO_IMAGE_AVAILABLE None
      | None \<Rightarrow> query_next_image_response tsn NO_IMAGE_AVAILABLE None)"


definition handle_upgrade_end :: "status \<Rightarrow> nat \<Rightarrow> nat \<Rightarrow> nat \<Rightarrow> nat \<Rightarrow> ota_response" where
  "handle_upgrade_end st manuf itype file_ver tsn = upgrade_end_response tsn manuf itype file_ver 0 0"

text \<open>A small provider used to run the handlers: one image, eligible when it is newer.\<close>

definition demo_image :: ota_image where
  "demo_image = \<lparr>img_key = \<lparr>manufacturer_id = 4476, image_type = 8\<rparr>, img_version = 7,
                 img_header = \<lparr>image_size = 100\<rparr>\<rparr>"

definition demo_provider :: ota_provider where
  "demo_provider =
     \<lparr>get_ota_image = (\<lambda>m t. if m = 4476 \<and> t = 8 then Some demo_image else None),
      should_update = (\<lambda>img m t cur hw. cur < img_version img),
      get_image_block = (\<lambda>img off sz. if 100 \<le> off then Inl ValueError
                                        else Inr (replicate (min sz (100 - off)) 0))\<rparr>"

section \<open>The green power proxy cluster: objects\<close>

text \<open>
  A cluster object is its attribute dictionary \<^verbatim>\<open>_attr_cache\<close>; an endpoint holds its input
  and output clusters by cluster id; a device holds its endpoints by endpoint id; the
  application holds the devices by IEEE address, the send sequence number and, here, the
  trace of the calls made to collaborators (\<^verbatim>\<open>device_initialized\<close>, the \<^verbatim>\<open>handle_message\<close>
  of a target cluster, \<^verbatim>\<open>broadcast\<close>).
\<close>

type_synonym ieee = "byte list"

record cluster =
  attr_cache :: "nat \<rightharpoonup> pyval"

datatype zha_device_type = GREEN_POWER

datatype endpoint_status = Endpoint_NEW | Endpoint_ZDO_INIT

datatype device_status = Device_NEW | Device_ENDPOINTS_INIT

record endpoint =
  ep_status :: endpoint_status
  profile_id :: "nat option"
  device_type :: "zha_device_type option"
  in_clusters :: "nat \<rightharpoonup> cluster"
  out_clusters :: "nat \<rightharpoonup> cluster"

record device =
  nwk :: nat
  dev_status :: device_status
  skip_configuration :: bool
  endpoints :: "nat \<rightharpoonup> endpoint"

record zcl_header =
  hdr_tsn :: nat
  hdr_command_id :: "nat option"
  disable_default_response :: bool

record broadcast_request =
  bc_profile :: nat
  bc_cluster :: nat
  bc_src_ep :: nat
  bc_dst_ep :: nat
  bc_grpid :: "nat option"
  bc_radius :: nat
  bc_sequence :: nat
  bc_header :: zcl_header
  bc_body :: "byte list"

datatype event =
    DeviceInitialized ieee
  | ClusterMessage ieee nat nat zcl_header "pyval list"
  | Broadcast broadcast_request

record application =
  devices :: "ieee \<rightharpoonup> device"
  send_sequence :: nat
  trace :: "event list"

text \<open>
  Modelled from the spec: the device registry, endpoint and cluster classes are not part of
  this module. A new device has no endpoints, a new endpoint no clusters, a new cluster an
  empty attribute dictionary; \<^verbatim>\<open>add_input_cluster\<close> and \<^verbatim>\<open>add_output_cluster\<close> are the
  capability mutators and keep a cluster that is already present; the cluster method
  \<^verbatim>\<open>_update_attribute\<close> stores the value in the cluster's attribute dictionary;
  \<^verbatim>\<open>get_sequence\<close> advances the one-byte send sequence number and returns it.
\<close>

definition new_cluster :: cluster where
  "new_cluster = \<lparr>attr_cache = Map.empty\<rparr>"

definition new_endpoint :: endpoint where
  "new_endpoint = \<lparr>ep_status = Endpoint_NEW, profile_id = None, device_type = None,
                    in_clusters = Map.empty, out_clusters = Map.empty\<rparr>"

definition new_device :: "nat \<Rightarrow> device" where
  "new_device n = \<lparr>nwk = n, dev_status = Device_NEW, skip_configuration = False,
                    endpoints = Map.empty\<rparr>"

definition add_input_cluster :: "endpoint \<Rightarrow> nat \<Rightarrow> endpoint" where
  "add_input_cluster ep cid =
     (case in_clusters ep cid of
        Some c \<Rightarrow> ep
      | None \<Rightarrow> ep\<lparr>in_clusters := (in_clusters ep)(cid \<mapsto> new_cluster)\<rparr>)"

definition add_output_cluster :: "endpoint \<Rightarrow> nat \<Rightarrow> endpoint" where
  "add_output_cluster ep cid =
     (case out_clusters ep cid of
        Some c \<Rightarrow> ep
      | None \<Rightarrow> ep\<lparr>out_clusters := (out_clusters ep)(cid \<mapsto> new_cluster)\<rparr>)"

definition update_attribute :: "cluster \<Rightarrow> nat \<Rightarrow> pyval \<Rightarrow> cluster" where
  "update_attribute c attrid v = c\<lparr>attr_cache := (attr_cache c)(attrid \<mapsto> v)\<rparr>"

definition get_sequence :: "application \<Rightarrow> nat \<times> application" where
  "get_sequence app =
     (let n = (send_sequence app + 1) mod 256 in (n, app\<lparr>send_sequence := n\<rparr>))"

definition device_initialized :: "application \<Rightarrow> ieee \<Rightarrow> application" where
  "device_initialized app a = app\<lparr>trace := trace app @ [DeviceInitialized a]\<rparr>"

text \<open>Class constants of \<^verbatim>\<open>GreenPowerProxy\<close>, of \<^verbatim>\<open>Basic\<close> and of the ZHA profile.\<close>

definition cluster_id :: nat where "cluster_id = 0x0021"
definition endpoint_id :: nat where "endpoint_id = 242"
definition Basic_cluster_id :: nat where "Basic_cluster_id = 0x0000"
definition PROFILE_ID :: nat where "PROFILE_ID = 260"

section \<open>Static tables\<close>

text \<open>
  Modelled from the spec: the wire types of \<^verbatim>\<open>zigpy.types\<close> that occur in the command
  table. A fixed-width unsigned integer needs its full width and fails with ValueError on a
  shorter input; an optional field that cannot be read yields \<^verbatim>\<open>None\<close> and consumes the
  rest; \<^verbatim>\<open>deserialize\<close> reads the fields of a schema in order and returns the values with
  the bytes left over.
\<close>

datatype ztype = uint8_t | uint16_t | Optional ztype

fun deserialize_type :: "ztype \<Rightarrow> byte list \<Rightarrow> error + (pyval \<times> byte list)" where
  "deserialize_type uint8_t bs =
     (if length bs < 1 then Inl ValueError else Inr (PInt (from_bytes_le (take 1 bs)), drop 1 bs))"
| "deserialize_type uint16_t bs =
     (if length bs < 2 then Inl ValueError else Inr (PInt (from_bytes_le (take 2 bs)), drop 2 bs))"
| "deserialize_type (Optional ty) bs =
     (case deserialize_type ty bs of
        Inl ValueError \<Rightarrow> Inr (PNone, [])
      | Inl e \<Rightarrow> Inl e
      | Inr r \<Rightarrow> Inr r)"

fun deserialize :: "byte list \<Rightarrow> ztype list \<Rightarrow> error + (pyval list \<times> byte list)" where
  "deserialize bs [] = Inr ([], bs)"
| "deserialize bs (ty # schema) =
     (case deserialize_type ty bs of
        Inl e \<Rightarrow> Inl e
      | Inr (v, rest) \<Rightarrow>
          (case deserialize rest schema of
             Inl e \<Rightarrow> Inl e
           | Inr (vs, rest') \<Rightarrow> Inr (v # vs, rest')))"

text \<open>
  \<^verbatim>\<open>GreenPowerProxy.command\<close>: command id to (name, type, schema, cluster id, ZCL command
  id, leading argument values), entry by entry as in the source.
\<close>

type_synonym command_entry = "string \<times> string \<times> ztype list \<times> nat option \<times> nat option \<times> int list"

definition command_table :: "(nat \<times> command_entry) list" where
  "command_table =
   [(0x00, (''Identify'', ''CLUSTER_COMMAND'', [], None, None, [])),
    (0x10, (''Scene 0'', ''CLUSTER_COMMAND'', [], Some 0x0005, Some 0x0001, [0, 0])),
    (0x11, (''Scene 1'', ''CLUSTER_COMMAND'', [], Some 0x0005, Some 0x0001, [0, 1])),
    (0x12, (''Scene 2'', ''CLUSTER_COMMAND'', [], Some 0x0005, Some 0x0001, [0, 2])),
    (0x13, (''Scene 3'', ''CLUSTER_COMMAND'', [], Some 0x0005, Some 0x0001, [0, 3])),
    (0x14, (''Scene 4'', ''CLUSTER_COMMAND'', [], Some 0x0005, Some 0x0001, [0, 4])),
    (0x15, (''Scene 5'', ''CLUSTER_COMMAND'', [], Some 0x0005, Some 0x0001, [0, 5])),
    (0x17, (''Scene 7'', ''CLUSTER_COMMAND'', [], Some 0x0005, Some 0x0001, [0, 6])),
    (0x16, (''Scene 6'', ''CLUSTER_COMMAND'', [], Some 0x0005, Some 0x0001, [0, 7])),
    (0x18, (''Scene 8'', ''CLUSTER_COMMAND'', [], Some 0x0005, Some 0x0001, [0, 8])),
    (0x19, (''Scene 9'', ''CLUSTER_COMMAND'', [], Some 0x0005, Some 0x0001, [0, 9])),
    (0x1A, (''Scene 10'', ''CLUSTER_COMMAND'', [], Some 0x0005, Some 0x0001, [0, 10])),
    (0x1B, (''Scene 11'', ''CLUSTER_COMMAND'', [], Some 0x0005, Some 0x0001, [0, 11])),
    (0x1C, (''Scene 12'', ''CLUSTER_COMMAND'', [], Some 0x0005, Some 0x0001, [0, 12])),
    (0x1D, (''Scene 13'', ''CLUSTER_COMMAND'', [], Some 0x0005, Some 0x0001, [0, 13])),
    (0x1E, (''Scene 14'', ''CLUSTER_COMMAND'', [], Some 0x0005, Some 0x0001, [0, 14])),
    (0x1F, (''Scene 15'', ''CLUSTER_COMMAND'', [], Some 0x0005, Some 0x0001, [0, 15])),
    (0x20, (''Off'', ''CLUSTER_COMMAND'', [], Some 0x0006, Some 0x0000, [])),
    (0x21, (''On'', ''CLUSTER_COMMAND'', [], Some 0x0006, Some 0x0001, [])),
    (0x22, (''Toggle'', ''CLUSTER_COMMAND'', [], Some 0x0006, Some 0x0002, [])),
    (0x23, (''Release'', ''CLUSTER_COMMAND'', [], None, None, [])),
    (0x30, (''Move Up'', ''CLUSTER_COMMAND'', [uint8_t], Some 0x0008, Some 0x0001, [1])),
    (0x31, (''Move Down'', ''CLUSTER_COMMAND'', [uint8_t], Some 0x0008, Some 0x0000, [0])),
    (0x32, (''Step Up'', ''CLUSTER_COMMAND'', [uint8_t, Optional uint16_t],
            Some 0x0008, Some 0x0002, [1])),
    (0x33, (''Step Down'', ''CLUSTER_COMMAND'', [uint8_t, Optional uint16_t],
            Some 0x0008, Some 0x0002, [0])),
    (0x34, (''Level Control/Stop'', ''CLUSTER_COMMAND'', [], Some 0x0008, Some 0x0007, [])),
    (0x35, (''Move Up (with On/Off)'', ''CLUSTER_COMMAND'', [uint8_t],
            Some 0x0008, Some 0x0005, [1])),
    (0x36, (''Move Down (with On/Off)'', ''CLUSTER_COMMAND'', [uint8_t],
            Some 0x0008, Some 0x0005, [0])),
    (0x37, (''Step Up (with On/Off)'', ''CLUSTER_COMMAND'', [uint8_t, Optional uint16_t],
            Some 0x0008, Some 0x0006, [1])),
    (0x38, (''Step Down (with On/Off)'', ''CLUSTER_COMMAND'', [uint8_t, Optional uint16_t],
            Some 0x0008, Some 0x0006, [0])),
    (0x40, (''Move Hue Stop'', ''CLUSTER_COMMAND'', [], Some 0x0300, Some 0x0047, [])),
    (0x41, (''Move Hue Up Color'', ''CLUSTER_COMMAND'', [uint8_t],
            Some 0x0300, Some 0x0001, [1])),
    (0x42, (''Move Hue Down Color'', ''CLUSTER_COMMAND'', [uint8_t],
            Some 0x0300, Some 0x0001, [0])),
    (0x43, (''Step Hue Up Color'', ''CLUSTER_COMMAND'', [uint8_t, Optional uint16_t],
            Some 0x0300, Some 0x0002, [1])),
    (0x44, (''Step Hue Down Color'', ''CLUSTER_COMMAND'', [uint8_t, Optional uint16_t],
            Some 0x0300, Some 0x0002, [0])),
    (0x46, (''Move Saturation Up'', ''CLUSTER_COMMAND'', [uint8_t],
            Some 0x0300, Some 0x0004, [1])),
    (0x47, (''Move Saturation Down'', ''CLUSTER_COMMAND'', [uint8_t],
            Some 0x0300, Some 0x0004, [0])),
    (0x48, (''Step Saturation Up'', ''CLUSTER_COMMAND'', [uint8_t],
            Some 0x0300, Some 0x0005, [1])),
    (0x49, (''Step Saturation Down'', ''CLUSTER_COMMAND'', [uint8_t],
            Some 0x0300, Some 0x0005, [0])),
    (0x4A, (''Move Color'', ''CLUSTER_COMMAND'', [uint16_t, uint16_t],
            Some 0x0300, Some 0x0008, [])),
    (0x4B, (''Step Color'', ''CLUSTER_COMMAND'', [uint16_t, uint16_t, Optional uint16_t],
            Some 0x0300, Some 0x0009, [])),
    (0x45, (''Move Saturation Stop'', ''CLUSTER_COMMAND'', [], Some 0x0300, Some 0x0047, [])),
    (0x50, (''Lock Door'', ''CLUSTER_COMMAND'', [], Some 0x0101, Some 0x0000, [])),
    (0x51, (''Unlock Door'', ''CLUSTER_COMMAND'', [], Some 0x0101, Some 0x0001, [])),
    (0x60, (''Press 1 of 1'', ''CLUSTER_COMMAND'', [], None, None, [])),
    (0x61, (''Release 1 of 1'', ''CLUSTER_COMMAND'', [], None, None, [])),
    (0x62, (''Press 1 of 2'', ''CLUSTER_COMMAND'', [], None, None, [])),
    (0x63, (''Release 1 of 2'', ''CLUSTER_COMMAND'', [], None, None, [])),
    (0x64, (''Press 2 of 2'', ''CLUSTER_COMMAND'', [], None, None, [])),
    (0x65, (''Release 2 of 2'', ''CLUSTER_COMMAND'', [], None, None, [])),
    (0x66, (''Short press 1 of 1'', ''CLUSTER_COMMAND'', [], None, None, [])),
    (0x67, (''Short press 1 of 2'', ''CLUSTER_COMMAND'', [], None, None, [])),
    (0x68, (''Short press 2 of 2'', ''CLUSTER_COMMAND'', [], None, None, [])),
    (0x69, (''Press'', ''CLUSTER_COMMAND'', [uint8_t], Some 0x0005, Some 0x0001, [0])),
    (0x6A, (''Release'', ''CLUSTER_COMMAND'', [uint8_t], None, None, []))]"

definition command :: "nat \<rightharpoonup> command_entry" where
  "command = map_of command_table"

text \<open>
  \<^verbatim>\<open>GreenPowerProxy.device\<close>: device type to (label, input clusters, output clusters). The
  class body assigns the table twice; the second assignment is the one in force.
\<close>

definition device_table :: "(nat \<times> string \<times> nat list \<times> nat list) list" where
  "device_table =
   [(0x00, (''Simple Generic 1-state Switch'', [], [0x0006])),
    (0x01, (''Simple Generic 2-state Switch'', [], [0x0006])),
    (0x02, (''On/Off Switch'', [], [0x0005, 0x0006])),
    (0x03, (''Level Control Switch'', [], [0x0008])),
    (0x04, (''Simple Sensor'', [], [])),
    (0x05, (''Advanced Generic 1-state Switch'', [], [0x0005, 0x0006])),
    (0x06, (''Advanced Generic 2-state Switch'', [], [0x0005, 0x0006])),
    (0x07, (''On/Off Switch'', [], [0x0005, 0x0006])),
    (0x10, (''Color Dimmer Switch'', [], [0x0300])),
    (0x11, (''Light Sensor'', [0x0400], [])),
    (0x12, (''Occupancy Sensor'', [0x0406], [])),
    (0x20, (''Door Lock Controller'', [], [0x0101])),
    (0x30, (''Temperature Sensor'', [0x0402], [])),
    (0x31, (''Pressure Sensor'', [0x0403], [])),
    (0x32, (''Flow Sensor'', [0x0404], [])),
    (0x33, (''Indoor Environment Sensor'', [], []))]"

definition device_types :: "nat \<rightharpoonup> string \<times> nat list \<times> nat list" where
  "device_types = map_of device_table"

section \<open>Device creation, key provisioning, commissioning window\<close>


text \<open>
  The gate of \<^verbatim>\<open>create_device\<close>:
  \<^verbatim>\<open>0x9997 not in self._attr_cache or self._attr_cache[0x9997] < time.time()\<close>.
  The comparison of a stored value that is not a number with the clock raises TypeError.
\<close>

definition joining_expired :: "cluster \<Rightarrow> rat \<Rightarrow> error + bool" where
  "joining_expired self now =
     (case attr_cache self 0x9997 of
        None \<Rightarrow> Inr True
      | Some (PInt expiry) \<Rightarrow> Inr (of_int expiry < now)
      | Some v \<Rightarrow> Inl TypeError)"

text \<open>
  The first endpoint of a new device, as built between lines 1566 and 1590: the Basic
  cluster is added to the fresh endpoint, its attributes 4 and 5 are set, then the clusters
  of the device type are added.
\<close>

definition basic_endpoint :: "nat option \<Rightarrow> endpoint" where
  "basic_endpoint ty =
     (let ep0 = new_endpoint\<lparr>ep_status := Endpoint_ZDO_INIT, profile_id := Some PROFILE_ID,
                              device_type := Some GREEN_POWER\<rparr>;
          basic = update_attribute new_cluster 0x0004 (PStr ''GreenPower'');
          labelled = (\<lambda>n. ep0\<lparr>in_clusters := (in_clusters ep0)(Basic_cluster_id \<mapsto>
                        update_attribute basic 0x0005 (PStr n))\<rparr>)
      in case (case ty of None \<Rightarrow> None | Some t \<Rightarrow> device_types t) of
           Some (name, ins, outs) \<Rightarrow>
             foldl add_output_cluster (foldl add_input_cluster (labelled name) ins) outs
         | None \<Rightarrow> labelled ''GreenPowerDevice'')"

definition proxy_endpoint :: endpoint where
  "proxy_endpoint =
     add_input_cluster
       (new_endpoint\<lparr>ep_status := Endpoint_ZDO_INIT, profile_id := Some PROFILE_ID,
                     device_type := Some GREEN_POWER\<rparr>) cluster_id"

definition create_device ::
  "cluster \<Rightarrow> application \<Rightarrow> ieee \<Rightarrow> nat option \<Rightarrow> bool \<Rightarrow> rat
     \<Rightarrow> (error + device option) \<times> application" where
  "create_device self app a ty remoteCommissioning now =
     (case devices app a of
        Some d \<Rightarrow> (Inr (Some d), app)
      | None \<Rightarrow>
          (case (if remoteCommissioning then Inr False else joining_expired self now) of
             Inl e \<Rightarrow> (Inl e, app)
           | Inr True \<Rightarrow> (Inr None, app)
           | Inr False \<Rightarrow>
               (let dev = (new_device 32766)
                            \<lparr>dev_status := Device_ENDPOINTS_INIT, skip_configuration := True,
                             endpoints := [1 \<mapsto> basic_endpoint ty, endpoint_id \<mapsto> proxy_endpoint]\<rparr>
                in (Inr (Some dev),
                    device_initialized (app\<lparr>devices := (devices app)(a \<mapsto> dev)\<rparr>) a))))"

text \<open>
  \<^verbatim>\<open>setKey\<close>. \<^verbatim>\<open>del self._attr_cache[0x9998]\<close> raises KeyError when the dictionary has no
  such entry. A key that is not a byte string is converted with \<^verbatim>\<open>key.to_bytes(16, "big")\<close>,
  which an integer out of range fails with OverflowError and a string does not have.
\<close>

definition setKey :: "cluster \<Rightarrow> pyval \<Rightarrow> (error + unit) \<times> cluster" where
  "setKey self k =
     (case k of
        PNone \<Rightarrow>
          (case attr_cache self 0x9998 of
             None \<Rightarrow> (Inl KeyError, self)
           | Some v \<Rightarrow> (Inr (), self\<lparr>attr_cache := (attr_cache self)(0x9998 := None)\<rparr>))
      | PBytes b \<Rightarrow> (Inr (), update_attribute self 0x9998 (PBytes b))
      | PInt n \<Rightarrow>
          (case to_bytes_be n 16 of
             Inl e \<Rightarrow> (Inl e, self)
           | Inr b \<Rightarrow> (Inr (), update_attribute self 0x9998 (PBytes b)))
      | PStr s \<Rightarrow> (Inl AttributeError, self))"


section \<open>Message integrity code\<close>

text \<open>
  The AES block cipher comes from a cryptographic library; its block encryption (key, block
  to block) is the parameter \<open>E\<close>. The two modes are written out for the way
  \<^verbatim>\<open>calcul_mic\<close> uses them: the library rejects a key that is not 16, 24 or 32 bytes long,
  an initialisation vector that is not one block long and a CBC plaintext that is not a
  whole number of blocks, each with ValueError.
\<close>

type_synonym block_cipher = "byte list \<Rightarrow> byte list \<Rightarrow> byte list"

definition xor_bytes :: "byte list \<Rightarrow> byte list \<Rightarrow> byte list" where
  "xor_bytes xs ys = map (\<lambda>(x, y). x XOR y) (zip xs ys)"

fun cbc_chain :: "block_cipher \<Rightarrow> byte list \<Rightarrow> byte list \<Rightarrow> byte list \<Rightarrow> nat \<Rightarrow> byte list" where
  "cbc_chain E k prev pt 0 = []"
| "cbc_chain E k prev pt (Suc n) =
     (let c = E k (xor_bytes prev (take 16 pt)) in c @ cbc_chain E k c (drop 16 pt) n)"

definition valid_key_length :: "byte list \<Rightarrow> bool" where
  "valid_key_length k = (length k = 16 \<or> length k = 24 \<or> length k = 32)"

definition cbc_encrypt :: "block_cipher \<Rightarrow> byte list \<Rightarrow> byte list \<Rightarrow> byte list \<Rightarrow> error + byte list" where
  "cbc_encrypt E k iv pt =
     (if \<not> valid_key_length k \<or> length iv \<noteq> 16 \<or> length pt mod 16 \<noteq> 0 then Inl ValueError
      else Inr (cbc_chain E k iv pt (length pt div 16)))"

text \<open>
  Counter mode on at most one block of data: the first key stream block is \<open>E k ctr\<close>.
  The counter starts at the integer read from \<^verbatim>\<open>A0\<close>; the source id has four bytes and
  the counter four, so \<^verbatim>\<open>A0\<close> is one block and is the first counter block itself.
\<close>

definition ctr_encrypt :: "block_cipher \<Rightarrow> byte list \<Rightarrow> byte list \<Rightarrow> byte list \<Rightarrow> error + byte list" where
  "ctr_encrypt E k ctr pt =
     (if \<not> valid_key_length k \<or> length ctr \<noteq> 16 then Inl ValueError
      else Inr (xor_bytes pt (E k ctr)))"

text \<open>\<^verbatim>\<open>xs + b"\x00" * (16 - len(xs))\<close>: a non-positive repetition count adds nothing.\<close>

definition pad16 :: "byte list \<Rightarrow> byte list" where
  "pad16 xs = xs @ replicate (16 - length xs) 0"

text \<open>
  The device's proxy cluster,
  \<^verbatim>\<open>dev.endpoints[self.endpoint_id].in_clusters[self.cluster_id]\<close>; each subscript raises
  KeyError when the entry is missing.
\<close>

definition proxy_cluster :: "device \<Rightarrow> error + cluster" where
  "proxy_cluster dev =
     (case endpoints dev endpoint_id of
        None \<Rightarrow> Inl KeyError
      | Some ep \<Rightarrow> (case in_clusters ep cluster_id of None \<Rightarrow> Inl KeyError | Some c \<Rightarrow> Inr c))"

text \<open>
  The computation of lines 1710 to 1730 on byte strings: key, source id, header bytes,
  counter bytes and payload bytes.
\<close>

definition ccm_mic ::
  "block_cipher \<Rightarrow> byte list \<Rightarrow> byte list \<Rightarrow> byte list \<Rightarrow> byte list \<Rightarrow> byte list \<Rightarrow> error + int" where
  "ccm_mic E k src_id hb cb payload =
     (let nonce = src_id @ src_id @ cb @ [0x05];
          a = hb @ src_id @ cb @ payload
      in case to_bytes_be (int (length a)) 2 of
           Inl e \<Rightarrow> Inl e
         | Inr La \<Rightarrow>
             (let B1 = pad16 (La @ a);
                  B0 = pad16 (0x49 # nonce);
                  X0 = replicate 16 0
              in case cbc_encrypt E k B0 X0 of
                   Inl e \<Rightarrow> Inl e
                 | Inr X1 \<Rightarrow>
                     (case cbc_encrypt E k B1 X1 of
                        Inl e \<Rightarrow> Inl e
                      | Inr X2 \<Rightarrow>
                          (let A0 = 0x01 # nonce @ [0x00, 0x00]
                           in case ctr_encrypt E k A0 (take 4 X2) of
                                Inl e \<Rightarrow> Inl e
                              | Inr m \<Rightarrow> Inr (from_bytes_le m)))))"

text \<open>
  \<^verbatim>\<open>calcul_mic\<close> as \<^verbatim>\<open>handle_notification\<close> calls it: header an integer, counter an integer
  or \<^verbatim>\<open>None\<close>, payload a byte string. The result is \<^verbatim>\<open>None\<close> for an unknown device and
  for a device whose proxy cluster has no attribute 0x9998. A stored key that is not a byte
  string is refused by the cipher with TypeError; \<^verbatim>\<open>None.to_bytes\<close> is an AttributeError.
\<close>

definition calcul_mic ::
  "block_cipher \<Rightarrow> application \<Rightarrow> ieee \<Rightarrow> int \<Rightarrow> int option \<Rightarrow> byte list \<Rightarrow> nat
     \<Rightarrow> error + int option" where
  "calcul_mic E app a hdr counter payload payload_length =
     (case devices app a of
        None \<Rightarrow> Inr None
      | Some dev \<Rightarrow>
          (case proxy_cluster dev of
             Inl e \<Rightarrow> Inl e
           | Inr c \<Rightarrow>
               (case attr_cache c 0x9998 of
                  None \<Rightarrow> Inr None
                | Some kv \<Rightarrow>
                    (case to_bytes_le hdr 2 of
                       Inl e \<Rightarrow> Inl e
                     | Inr hb \<Rightarrow>
                         (case counter of
                            None \<Rightarrow> Inl AttributeError
                          | Some cnt \<Rightarrow>
                              (case to_bytes_le cnt 4 of
                                 Inl e \<Rightarrow> Inl e
                               | Inr cb \<Rightarrow>
                                   (case kv of
                                      PBytes k \<Rightarrow>
                                        (case ccm_mic E k (take 4 a) hb cb payload of
                                           Inl e \<Rightarrow> Inl e
                                         | Inr m \<Rightarrow> Inr (Some m))
                                    | v \<Rightarrow> Inl TypeError)))))))"

section \<open>Frame handling\<close>

text \<open>
  Line 1646 is \<^verbatim>\<open>attributes._update_attribute(0x9999, counter)\<close> with \<^verbatim>\<open>attributes\<close>
  bound to the dictionary \<^verbatim>\<open>_attr_cache\<close> of the device's proxy cluster. The module uses
  \<^verbatim>\<open>_attr_cache\<close> as a dictionary throughout (membership test, subscript, item
  assignment, \<^verbatim>\<open>del\<close>), and \<^verbatim>\<open>_update_attribute\<close> is a method of the cluster (lines
  1571 and 1738 call it on a cluster). A dictionary has no such attribute: the call raises
  AttributeError and stores nothing.
\<close>

definition dict_update_attribute :: "(nat \<rightharpoonup> pyval) \<Rightarrow> nat \<Rightarrow> pyval \<Rightarrow> error + (nat \<rightharpoonup> pyval)" where
  "dict_update_attribute attributes attrid v = Inl AttributeError"

text \<open>Writing a new attribute dictionary back into the device's proxy cluster.\<close>

definition store_proxy_cache :: "application \<Rightarrow> ieee \<Rightarrow> (nat \<rightharpoonup> pyval) \<Rightarrow> application" where
  "store_proxy_cache app a attrs =
     (case devices app a of
        None \<Rightarrow> app
      | Some dev \<Rightarrow>
          (case endpoints dev endpoint_id of
             None \<Rightarrow> app
           | Some ep \<Rightarrow>
               app\<lparr>devices := (devices app)(a \<mapsto> dev\<lparr>endpoints := (endpoints dev)(endpoint_id \<mapsto>
                      ep\<lparr>in_clusters := (in_clusters ep)(cluster_id \<mapsto> \<lparr>attr_cache = attrs\<rparr>)\<rparr>)\<rparr>)\<rparr>))"

text \<open>
  \<^verbatim>\<open>attempt r s k\<close>: an exception in \<open>r\<close> ends the call with the state \<open>s\<close> reached so
  far; otherwise the call goes on with the value.
\<close>

definition attempt :: "error + 'a \<Rightarrow> 's \<Rightarrow> ('a \<Rightarrow> (error + 'b) \<times> 's) \<Rightarrow> (error + 'b) \<times> 's" where
  "attempt r s k = (case r of Inl e \<Rightarrow> (Inl e, s) | Inr x \<Rightarrow> k x)"

text \<open>
  Lines 1647 to 1656: the translated command is handed to the output cluster of endpoint 1,
  which is added first (with a notification) when the endpoint does not have it.
\<close>

definition redispatch ::
  "application \<Rightarrow> ieee \<Rightarrow> string \<Rightarrow> nat option \<Rightarrow> nat option \<Rightarrow> pyval list
     \<Rightarrow> (error + unit) \<times> application" where
  "redispatch app a ty cid zcl_command_id val =
     (case cid of
        None \<Rightarrow> (Inr (), app)
      | Some c \<Rightarrow>
          if ty \<noteq> ''CLUSTER_COMMAND'' then (Inr (), app)
          else
            (case devices app a of
               None \<Rightarrow> (Inl KeyError, app)
             | Some dev \<Rightarrow>
                 (case endpoints dev 1 of
                    None \<Rightarrow> (Inl KeyError, app)
                  | Some ep \<Rightarrow>
                      (let app1 =
                             (if out_clusters ep c = None
                              then device_initialized
                                     (app\<lparr>devices := (devices app)(a \<mapsto>
                                        dev\<lparr>endpoints := (endpoints dev)(1 \<mapsto> add_output_cluster ep c)\<rparr>)\<rparr>) a
                              else app);
                           (tsn, app2) = get_sequence app1;
                           hdr = \<lparr>hdr_tsn = tsn, hdr_command_id = zcl_command_id,
                                  disable_default_response = False\<rparr>
                       in (Inr (), app2\<lparr>trace := trace app2 @ [ClusterMessage a 1 c hdr val]\<rparr>)))))"

text \<open>
  Lines 1621 to 1656, what \<^verbatim>\<open>handle_notification\<close> does with a frame that has passed the
  integrity check: the payload is deserialized by the schema of the command, the replay
  counter is compared and recorded, the command is redispatched.
\<close>

definition handle_authenticated ::
  "application \<Rightarrow> ieee \<Rightarrow> int option \<Rightarrow> nat \<Rightarrow> int \<Rightarrow> nat \<Rightarrow> (error + unit) \<times> application" where
  "handle_authenticated app a counter command_id payload payload_length =
     (case command command_id of
        None \<Rightarrow> (Inl KeyError, app)
      | Some (name, ty, schema, cid, zcl_command_id, leading) \<Rightarrow>
          attempt (to_bytes_le payload payload_length) app (\<lambda>pb.
          attempt (deserialize pb schema) app (\<lambda>(args, rest).
          let val = map PInt leading @ args in
          case devices app a of
            None \<Rightarrow> (Inl KeyError, app)
          | Some dev \<Rightarrow>
              (case counter of
                 None \<Rightarrow> redispatch app a ty cid zcl_command_id val
               | Some cnt \<Rightarrow>
                   attempt (proxy_cluster dev) app (\<lambda>pc.
                   let attributes = attr_cache pc in
                   attempt (case attributes 0x9999 of
                              None \<Rightarrow> Inr False
                            | Some (PInt stored) \<Rightarrow> Inr (cnt \<le> stored)
                            | Some v \<Rightarrow> Inl TypeError) app (\<lambda>stale.
                   if stale then (Inr (), app)
                   else
                     attempt (dict_update_attribute attributes 0x9999 (PInt cnt)) app (\<lambda>attrs.
                     redispatch (store_proxy_cache app a attrs) a ty cid zcl_command_id val)))))))"

text \<open>
  \<^verbatim>\<open>handle_notification\<close>. The arguments of the call of \<^verbatim>\<open>calcul_mic\<close> are evaluated
  first, so a command id or a payload that does not fit its width raises OverflowError there.
\<close>

definition handle_notification ::
  "block_cipher \<Rightarrow> application \<Rightarrow> ieee \<Rightarrow> int \<Rightarrow> int option \<Rightarrow> nat \<Rightarrow> int \<Rightarrow> nat \<Rightarrow> int
     \<Rightarrow> (error + unit) \<times> application" where
  "handle_notification E app a hdr counter command_id payload payload_length mic =
     (if devices app a = None then (Inr (), app)
      else if command command_id = None then (Inr (), app)
      else
        attempt (to_bytes_le (int command_id) 1) app (\<lambda>cb.
        attempt (to_bytes_le payload payload_length) app (\<lambda>pb.
        attempt (calcul_mic E app a hdr counter (cb @ pb) (payload_length + 1)) app (\<lambda>computed.
        if computed \<noteq> None \<and> computed \<noteq> Some mic then (Inr (), app)
        else handle_authenticated app a counter command_id payload payload_length))))"

text \<open>
  \<^verbatim>\<open>handle_message\<close>. \<^verbatim>\<open>data[i]\<close> raises IndexError beyond the end; slices never fail.
  A commissioning frame goes to \<^verbatim>\<open>create_device\<close> with the default
  \<^verbatim>\<open>remoteCommissioning=False\<close> and the returned device is discarded.
\<close>

definition slice :: "nat \<Rightarrow> nat \<Rightarrow> 'a list \<Rightarrow> 'a list" where
  "slice i j xs = take (j - i) (drop i xs)"

definition handle_message ::
  "block_cipher \<Rightarrow> cluster \<Rightarrow> application \<Rightarrow> rat \<Rightarrow> byte list list
     \<Rightarrow> (error + unit) \<times> application" where
  "handle_message E self app now args =
     (case args of
        [] \<Rightarrow> (Inl IndexError, app)
      | d # ds \<Rightarrow>
          if length d = 0 then (Inl IndexError, app)
          else if d ! 0 = 12 \<and> length d \<le> 5 then (Inl IndexError, app)
          else if d ! 0 = 12 \<and> d ! 5 = 224 then
            (if length d \<le> 6 then (Inl IndexError, app)
             else
               (case create_device self app (slice 1 5 d @ slice 1 5 d) (Some (unat (d ! 6))) False now of
                  (Inl e, app') \<Rightarrow> (Inl e, app')
                | (Inr dev, app') \<Rightarrow> (Inr (), app')))
          else if length d \<le> 10 then (Inl IndexError, app)
          else
            (let a = slice 2 6 d @ slice 2 6 d;
                 counter = from_bytes_le (slice 6 10 d);
                 command_id = unat (d ! 10);
                 body = drop 11 (take (length d - 4) d);
                 payload_length = length body;
                 payload = from_bytes_le body;
                 mic = from_bytes_le (drop (length d - 4) d);
                 hdr = from_bytes_le (slice 0 2 d)
             in handle_notification E app a hdr (Some counter) command_id payload payload_length mic))"

text \<open>
  Modelled from the spec: the caller of \<^verbatim>\<open>handle_message\<close> is not part of this module.
  Frames are handled one at a time, in arrival order; a failure in the handling of one frame
  is caught and does not stop the next one. Each frame comes with the clock reading at its
  arrival.
\<close>

fun handle_frames ::
  "block_cipher \<Rightarrow> cluster \<Rightarrow> application \<Rightarrow> (rat \<times> byte list list) list \<Rightarrow> application" where
  "handle_frames E self app [] = app"
| "handle_frames E self app ((now, args) # rest) =
     handle_frames E self (snd (handle_message E self app now args)) rest"

text \<open>The stored replay counter of a device, when the device and its proxy cluster exist.\<close>

definition stored_counter :: "application \<Rightarrow> ieee \<Rightarrow> pyval option" where
  "stored_counter app a =
     (case devices app a of
        None \<Rightarrow> None
      | Some dev \<Rightarrow> (case proxy_cluster dev of Inl e \<Rightarrow> None | Inr c \<Rightarrow> attr_cache c 0x9999))"

definition stored_key :: "application \<Rightarrow> ieee \<Rightarrow> pyval option" where
  "stored_key app a =
     (case devices app a of
        None \<Rightarrow> None
      | Some dev \<Rightarrow> (case proxy_cluster dev of Inl e \<Rightarrow> None | Inr c \<Rightarrow> attr_cache c 0x9998))"

text \<open>
  A registry to run the operations on: one device, commissioned through the administrative
  path from an empty registry, with device type 2 (on/off switch), and the frame that turns
  it on with counter 11.
\<close>

definition demo_ieee :: ieee where
  "demo_ieee = [1, 2, 3, 4, 1, 2, 3, 4]"

definition empty_application :: application where
  "empty_application = \<lparr>devices = Map.empty, send_sequence = 0, trace = []\<rparr>"

definition demo_application :: application where
  "demo_application = snd (create_device new_cluster empty_application demo_ieee (Some 2) True 0)"

definition on_frame :: "byte list" where
  "on_frame = [0x8C, 0x30, 1, 2, 3, 4, 11, 0, 0, 0, 0x21, 0xAA, 0xBB, 0xCC, 0xDD]"

text \<open>The same registry after the device has accepted a frame with counter 10.\<close>

definition demo_application_10 :: application where
  "demo_application_10 =
     store_proxy_cache demo_application demo_ieee [0x9999 \<mapsto> PInt 10]"

definition demo_device :: device where
  "demo_device =
     (new_device 32766)
       \<lparr>dev_status := Device_ENDPOINTS_INIT, skip_configuration := True,
        endpoints := [1 \<mapsto> basic_endpoint (Some 2), endpoint_id \<mapsto> proxy_endpoint]\<rparr>"

definition demo_device_10 :: device where
  "demo_device_10 =
     demo_device\<lparr>endpoints := (endpoints demo_device)(endpoint_id \<mapsto>
       proxy_endpoint\<lparr>in_clusters := (in_clusters proxy_endpoint)(cluster_id \<mapsto>
         \<lparr>attr_cache = [0x9999 \<mapsto> PInt 10]\<rparr>)\<rparr>)\<rparr>"

text \<open>A handling cluster whose commissioning window ends at the given second.\<close>

definition window_cluster :: "int \<Rightarrow> cluster" where
  "window_cluster expiry = \<lparr>attr_cache = [0x9997 \<mapsto> PInt expiry]\<rparr>"

text \<open>A commissioning frame for the identity above: length marker 12, opcode 224, type 2.\<close>

definition commissioning_frame :: "byte list" where
  "commissioning_frame = [12, 1, 2, 3, 4, 224, 2, 0, 0, 0, 0, 0, 0]"

section \<open>Auxiliary facts\<close>

lemma command_id_bound: "command c = Some e \<Longrightarrow> c < 256"
  unfolding command_def command_table_def
  by (auto split: if_splits)

lemma command_on:
  "command 0x21 = Some (''On'', ''CLUSTER_COMMAND'', [], Some 0x0006, Some 0x0001, [])"
  by (simp add: command_def command_table_def)

text \<open>
  A frame that carries a counter never changes the registry: with a counter present the
  only statement of \<^verbatim>\<open>handle_notification\<close> that would write is the failing call of
  line 1646, and the redispatch comes after it.
\<close>

lemma counter_frame_leaves_state:
  "snd (handle_notification E app a hdr (Some cnt) command_id payload payload_length mic) = app"
  by (auto simp add: handle_notification_def handle_authenticated_def attempt_def
        dict_update_attribute_def Let_def
      split: sum.splits option.splits prod.splits pyval.splits)

text \<open>Without a key the integrity check lets every frame through.\<close>

lemma no_key_passes_mic:
  assumes "devices app a = Some dev" and "proxy_cluster dev = Inr pc"
    and "attr_cache pc 0x9998 = None" and "command command_id = Some entry"
  shows "handle_notification E app a hdr counter command_id payload payload_length mic
           = handle_authenticated app a counter command_id payload payload_length"
proof -
  have mic_none: "\<And>bs m. calcul_mic E app a hdr counter bs m = Inr None"
    using assms(1-3) by (simp add: calcul_mic_def)
  have "command_id < 256" using assms(4) by (rule command_id_bound)
  then have cb: "to_bytes_le (int command_id) 1 = Inr (le_digits 1 (int command_id))"
    by (simp add: to_bytes_le_def)
  show ?thesis
    using assms(1,4) cb mic_none
    by (cases "to_bytes_le payload payload_length")
       (auto simp add: handle_notification_def handle_authenticated_def attempt_def)
qed

text \<open>With a key, a frame whose code differs from the computed one is dropped.\<close>

lemma wrong_mic_dropped:
  assumes "devices app a = Some dev" and "command command_id = Some entry"
    and "to_bytes_le payload payload_length = Inr pb"
    and "calcul_mic E app a hdr counter (le_digits 1 (int command_id) @ pb) (payload_length + 1)
           = Inr (Some m)"
    and "m \<noteq> mic"
  shows "handle_notification E app a hdr counter command_id payload payload_length mic
           = (Inr (), app)"
proof -
  have "command_id < 256" using assms(2) by (rule command_id_bound)
  then have cb: "to_bytes_le (int command_id) 1 = Inr (le_digits 1 (int command_id))"
    by (simp add: to_bytes_le_def)
  show ?thesis using assms cb by (simp add: handle_notification_def attempt_def)
qed

text \<open>A frame whose counter is not above the stored one is dropped by the replay check.\<close>

lemma stale_counter_dropped:
  assumes "devices app a = Some dev" and "proxy_cluster dev = Inr pc"
    and "command command_id = Some (name, ty, schema, cid, zcl, leading)"
    and "to_bytes_le payload payload_length = Inr pb"
    and "deserialize pb schema = Inr (args, rest)"
    and "attr_cache pc 0x9999 = Some (PInt stored)" and "cnt \<le> stored"
  shows "handle_authenticated app a (Some cnt) command_id payload payload_length = (Inr (), app)"
  using assms by (simp add: handle_authenticated_def attempt_def)

text \<open>
  A frame whose counter passes the replay check ends in the AttributeError of line 1646,
  before anything is stored or dispatched.
\<close>

lemma fresh_counter_raises:
  assumes "devices app a = Some dev" and "proxy_cluster dev = Inr pc"
    and "command command_id = Some (name, ty, schema, cid, zcl, leading)"
    and "to_bytes_le payload payload_length = Inr pb"
    and "deserialize pb schema = Inr (args, rest)"
    and "attr_cache pc 0x9999 = None \<or>
         (\<exists>stored. attr_cache pc 0x9999 = Some (PInt stored) \<and> stored < cnt)"
  shows "handle_authenticated app a (Some cnt) command_id payload payload_length
           = (Inl AttributeError, app)"
  using assms
  by (auto simp add: handle_authenticated_def attempt_def dict_update_attribute_def Let_def)

text \<open>Handling frames never removes or alters a device that is already known.\<close>

lemma create_device_keeps:
  "devices app a = Some dev \<Longrightarrow> devices (snd (create_device self app b ty rc now)) a = Some dev"
  by (auto simp add: create_device_def device_initialized_def Let_def
      split: option.splits sum.splits bool.splits)

lemma create_device_keeps_result:
  "create_device self app b ty rc now = (r, app') \<Longrightarrow> devices app a = Some dev
     \<Longrightarrow> devices app' a = Some dev"
  using create_device_keeps [of app a dev self b ty rc now] by simp

lemma handle_message_keeps:
  "devices app a = Some dev \<Longrightarrow> devices (snd (handle_message E self app now args)) a = Some dev"
  by (auto simp add: handle_message_def counter_frame_leaves_state Let_def
      split: list.splits prod.splits sum.splits elim: create_device_keeps_result)

lemma handle_frames_keeps:
  "devices app a = Some dev \<Longrightarrow> devices (handle_frames E self app frames) a = Some dev"
  by (induction frames arbitrary: app) (auto simp add: handle_message_keeps)

lemma handle_frames_keeps_counter:
  "devices app a \<noteq> None \<Longrightarrow>
     stored_counter (handle_frames E self app frames) a = stored_counter app a"
  by (auto simp add: stored_counter_def handle_frames_keeps)

text \<open>The demonstration registry and frames, evaluated.\<close>

lemma demo_devices: "devices demo_application demo_ieee = Some demo_device"
  by (simp add: demo_application_def create_device_def empty_application_def demo_device_def
      device_initialized_def Let_def)

lemma demo_proxy_cluster: "proxy_cluster demo_device = Inr new_cluster"
  by (simp add: demo_device_def proxy_cluster_def endpoint_id_def cluster_id_def
      proxy_endpoint_def add_input_cluster_def new_endpoint_def)

lemma demo_devices_10: "devices demo_application_10 demo_ieee = Some demo_device_10"
  by (simp add: demo_application_10_def store_proxy_cache_def demo_devices demo_device_10_def)
     (simp add: demo_device_def)

lemma demo_proxy_cluster_10:
  "proxy_cluster demo_device_10 = Inr \<lparr>attr_cache = [0x9999 \<mapsto> PInt 10]\<rparr>"
  by (simp add: demo_device_10_def proxy_cluster_def)

lemma on_frame_parsed:
  "handle_message E self app now [on_frame]
     = handle_notification E app demo_ieee 0x308C (Some 11) 0x21 0 0 0xDDCCBBAA"
  by (simp add: handle_message_def on_frame_def slice_def demo_ieee_def Let_def)

section \<open>Replay counter\<close>

text \<open>
  C1. A data frame for a known proxy device, with a recognized command id, passing the
  integrity check, and a counter above the stored one should store its counter and then be
  dispatched to endpoint 1. Run on the device with stored counter 10 and the frame with
  counter 11 and command On: the call ends in AttributeError at the update of the counter;
  the stored counter is still 10 and nothing is dispatched (the registry, trace included,
  is the one before the call).
\<close>

theorem fresh_frame_counter_update_raises:
  "handle_message E new_cluster demo_application_10 now [on_frame]
     = (Inl AttributeError, demo_application_10) \<and>
   stored_counter demo_application_10 demo_ieee = Some (PInt 10) \<and>
   stored_key demo_application_10 demo_ieee = None"
proof -
  have "handle_notification E demo_application_10 demo_ieee 0x308C (Some 11) 0x21 0 0 0xDDCCBBAA
          = handle_authenticated demo_application_10 demo_ieee (Some 11) 0x21 0 0"
    by (rule no_key_passes_mic [OF demo_devices_10 demo_proxy_cluster_10 _ command_on]) simp
  moreover have "handle_authenticated demo_application_10 demo_ieee (Some 11) 0x21 0 0
          = (Inl AttributeError, demo_application_10)"
    by (rule fresh_counter_raises [OF demo_devices_10 demo_proxy_cluster_10 command_on])
       (simp_all add: to_bytes_le_def)
  ultimately show ?thesis
    by (simp add: on_frame_parsed stored_counter_def stored_key_def demo_devices_10
        demo_proxy_cluster_10)
qed

text \<open>
  C4. A frame whose counter is not above the stored counter is dropped with no state change
  and the stored counter never decreases (lemmas \<open>stale_counter_dropped\<close>,
  \<open>counter_frame_leaves_state\<close>, \<open>handle_frames_keeps_counter\<close>); but a frame that arrives
  when no counter is stored should be accepted and initialize the counter. Run on the newly
  commissioned device, which has no stored counter: the first frame ends in AttributeError
  and the device still has no stored counter afterwards.
\<close>

theorem first_frame_counter_not_initialised:
  "handle_message E new_cluster demo_application now [on_frame]
     = (Inl AttributeError, demo_application) \<and>
   stored_counter demo_application demo_ieee = None \<and>
   stored_counter (snd (handle_message E new_cluster demo_application now [on_frame])) demo_ieee
     = None"
proof -
  have "handle_notification E demo_application demo_ieee 0x308C (Some 11) 0x21 0 0 0xDDCCBBAA
          = handle_authenticated demo_application demo_ieee (Some 11) 0x21 0 0"
    by (rule no_key_passes_mic [OF demo_devices demo_proxy_cluster _ command_on])
       (simp add: new_cluster_def)
  moreover have "handle_authenticated demo_application demo_ieee (Some 11) 0x21 0 0
          = (Inl AttributeError, demo_application)"
    by (rule fresh_counter_raises [OF demo_devices demo_proxy_cluster command_on])
       (simp_all add: to_bytes_le_def new_cluster_def)
  ultimately show ?thesis
    by (simp add: on_frame_parsed stored_counter_def demo_devices demo_proxy_cluster
        new_cluster_def)
qed

section \<open>Integrity check without a key\<close>



section \<open>Key provisioning\<close>

text \<open>
  C2, as amended. \<^verbatim>\<open>setKey(None)\<close> on a cluster without a key raises KeyError and leaves
  the cluster unchanged; \<^verbatim>\<open>setKey\<close> with a 16-byte key stores that key as attribute
  0x9998; \<^verbatim>\<open>setKey(None)\<close> on a cluster with a key removes it; no call touches another
  attribute.
\<close>

theorem setKey_cases:
  "(attr_cache c 0x9998 = None \<longrightarrow> setKey c PNone = (Inl KeyError, c)) \<and>
   (length k = 16 \<longrightarrow>
      fst (setKey c (PBytes k)) = Inr () \<and>
      attr_cache (snd (setKey c (PBytes k))) 0x9998 = Some (PBytes k)) \<and>
   (attr_cache c 0x9998 \<noteq> None \<longrightarrow>
      fst (setKey c PNone) = Inr () \<and> attr_cache (snd (setKey c PNone)) 0x9998 = None) \<and>
   (\<forall>i. i \<noteq> 0x9998 \<longrightarrow> attr_cache (snd (setKey c v)) i = attr_cache c i)"
  by (auto simp add: setKey_def update_attribute_def
      split: pyval.splits sum.splits option.splits)

text \<open>The theorem on a new cluster: clearing fails, provisioning stores, clearing removes.\<close>

theorem setKey_cases_witness:
  "setKey new_cluster PNone = (Inl KeyError, new_cluster) \<and>
   fst (setKey new_cluster (PBytes (replicate 16 7))) = Inr () \<and>
   attr_cache (snd (setKey new_cluster (PBytes (replicate 16 7)))) 0x9998
     = Some (PBytes (replicate 16 7)) \<and>
   fst (setKey (snd (setKey new_cluster (PBytes (replicate 16 7)))) PNone) = Inr () \<and>
   attr_cache (snd (setKey (snd (setKey new_cluster (PBytes (replicate 16 7)))) PNone)) 0x9998
     = None"
  using setKey_cases [of new_cluster "replicate 16 7" PNone]
        setKey_cases [of "snd (setKey new_cluster (PBytes (replicate 16 7)))" "[]" PNone]
  by (simp add: new_cluster_def)

text \<open>
  C2 as stated fails: on a cluster with no key, \<^verbatim>\<open>setKey(None)\<close> is not a silent no-op, it
  raises KeyError.
\<close>

theorem setKey_none_without_key_raises:
  "attr_cache new_cluster 0x9998 = None \<and>
   fst (setKey new_cluster PNone) = Inl KeyError \<and>
   fst (setKey new_cluster PNone) \<noteq> Inr ()"
  by (simp add: setKey_def new_cluster_def)

section \<open>Commissioning\<close>

text \<open>
  C6, as amended. The commissioning window is open when an expiry is stored and the clock is
  not past it (current time \<open>\<le>\<close> expiry). For an identity that is not yet known,
  \<^verbatim>\<open>create_device\<close> creates the device only if the override flag is set or the window
  is open; when the flag is not set and no expiry is stored or the expiry is in the past,
  nothing is created and the registry is unchanged, also for a commissioning frame handled
  by \<^verbatim>\<open>handle_message\<close>; when the flag is set or the window is open, the device is
  created with its two endpoints.
\<close>

theorem create_device_gate:
  "(devices app a = None \<and> devices (snd (create_device self app a ty rc now)) a \<noteq> None \<longrightarrow>
      rc \<or> (\<exists>expiry. attr_cache self 0x9997 = Some (PInt expiry) \<and> now \<le> of_int expiry)) \<and>
   (devices app a = None \<and> \<not> rc \<and>
    (attr_cache self 0x9997 = None \<or>
     (\<exists>expiry. attr_cache self 0x9997 = Some (PInt expiry) \<and> of_int expiry < now)) \<longrightarrow>
      create_device self app a ty rc now = (Inr None, app)) \<and>
   (6 < length d \<and> d ! 0 = 12 \<and> d ! 5 = 224 \<and>
    devices app (slice 1 5 d @ slice 1 5 d) = None \<and>
    (attr_cache self 0x9997 = None \<or>
     (\<exists>expiry. attr_cache self 0x9997 = Some (PInt expiry) \<and> of_int expiry < now)) \<longrightarrow>
      handle_message E self app now (d # ds) = (Inr (), app)) \<and>
   (devices app a = None \<and>
    (rc \<or> (\<exists>expiry. attr_cache self 0x9997 = Some (PInt expiry) \<and> now \<le> of_int expiry)) \<longrightarrow>
      (\<exists>dev. fst (create_device self app a ty rc now) = Inr (Some dev) \<and>
             devices (snd (create_device self app a ty rc now)) a = Some dev \<and>
             endpoints dev 1 \<noteq> None \<and> endpoints dev endpoint_id \<noteq> None))"
  by (auto simp add: create_device_def joining_expired_def device_initialized_def Let_def
        endpoint_id_def handle_message_def
      split: option.splits pyval.splits bool.splits)

text \<open>
  The theorem on the empty registry: refused one second after the expiry, refused with no
  expiry stored, refused for the commissioning frame, accepted one second before the expiry.
\<close>

theorem create_device_gate_witness:
  "create_device (window_cluster 100) empty_application demo_ieee None False 101
     = (Inr None, empty_application) \<and>
   create_device new_cluster empty_application demo_ieee None False 101
     = (Inr None, empty_application) \<and>
   handle_message (\<lambda>k b. b) (window_cluster 100) empty_application 101 [commissioning_frame]
     = (Inr (), empty_application) \<and>
   (\<exists>dev. fst (create_device (window_cluster 100) empty_application demo_ieee None False 99)
             = Inr (Some dev) \<and>
          devices (snd (create_device (window_cluster 100) empty_application demo_ieee None False 99))
             demo_ieee = Some dev \<and>
          endpoints dev 1 \<noteq> None \<and> endpoints dev endpoint_id \<noteq> None)"
  using create_device_gate
          [of empty_application demo_ieee "window_cluster 100" None False 101
              commissioning_frame "\<lambda>k b. b" "[]"]
        create_device_gate
          [of empty_application demo_ieee new_cluster None False 101
              commissioning_frame "\<lambda>k b. b" "[]"]
        create_device_gate
          [of empty_application demo_ieee "window_cluster 100" None False 99
              commissioning_frame "\<lambda>k b. b" "[]"]
  by (simp add: empty_application_def window_cluster_def new_cluster_def
      commissioning_frame_def slice_def)

text \<open>
  C6 as stated fails at the boundary: with the clock exactly at the stored expiry, so that
  the current time is not below the expiry, and with no override, the device is created.
\<close>

theorem create_device_at_expiry:
  "devices empty_application demo_ieee = None \<and>
   attr_cache (window_cluster 100) 0x9997 = Some (PInt 100) \<and>
   \<not> ((100 :: rat) < of_int 100) \<and>
   devices (snd (create_device (window_cluster 100) empty_application demo_ieee None False 100))
     demo_ieee \<noteq> None"
  by (simp add: create_device_def joining_expired_def window_cluster_def empty_application_def
      device_initialized_def Let_def)

text \<open>
  C7. For an identity already known to the registry, \<^verbatim>\<open>create_device\<close> returns the
  existing device and leaves the registry as it is, whatever the window, the override flag
  and the device type; so does the handling of a commissioning frame for that identity; and
  a second call after a successful one returns the same device and changes nothing.
\<close>

theorem create_device_known_identity:
  "(devices app a = Some dev \<longrightarrow>
      create_device self app a ty rc now = (Inr (Some dev), app)) \<and>
   (6 < length d \<and> d ! 0 = 12 \<and> d ! 5 = 224 \<and>
    devices app (slice 1 5 d @ slice 1 5 d) = Some dev \<longrightarrow>
      handle_message E self app now (d # ds) = (Inr (), app)) \<and>
   (create_device self app a ty rc now = (Inr (Some dev), app') \<longrightarrow>
      create_device self2 app' a ty2 rc2 now2 = (Inr (Some dev), app'))"
  by (auto simp add: create_device_def device_initialized_def Let_def handle_message_def
      split: option.splits sum.splits bool.splits if_splits)

text \<open>
  The theorem on the registry with one device: with the window closed and no override, with
  the override set, and for the commissioning frame.
\<close>

theorem create_device_known_identity_witness:
  "create_device new_cluster demo_application demo_ieee (Some 4) False 5
     = (Inr (Some demo_device), demo_application) \<and>
   handle_message (\<lambda>k b. b) new_cluster demo_application 5 [commissioning_frame]
     = (Inr (), demo_application) \<and>
   create_device (window_cluster 100) demo_application demo_ieee None True 7
     = (Inr (Some demo_device), demo_application)"
  using create_device_known_identity
          [of demo_application demo_ieee demo_device new_cluster "Some 4" False 5
              commissioning_frame "\<lambda>k b. b" "[]"
              demo_application "window_cluster 100" None True 7]
  by (simp add: demo_devices commissioning_frame_def slice_def)
     (simp add: demo_ieee_def demo_devices [unfolded demo_ieee_def])

section \<open>Commissioning window\<close>




section \<open>Theorems on the OTA handlers\<close>

text \<open>
  C9. A \<^verbatim>\<open>query_next_image\<close> request is answered NO\_IMAGE\_AVAILABLE when the provider has
  no image for the manufacturer and image type, SUCCESS with exactly the image's manufacturer
  id, image type, version and total size when the image exists and its eligibility predicate
  accepts the supplied current and hardware versions, and NO\_IMAGE\_AVAILABLE when the image
  exists and is not eligible. The handler is a function of the request and of the provider's
  answers: it has no state to mutate.
\<close>

theorem query_next_image_cases:
  "(get_ota_image ota m t = None \<longrightarrow>
      handle_query_next_image ota fc m t cur hw tsn
        = query_next_image_response tsn NO_IMAGE_AVAILABLE None) \<and>
   (\<forall>img. get_ota_image ota m t = Some img \<and> should_update ota img m t cur hw \<longrightarrow>
      handle_query_next_image ota fc m t cur hw tsn
        = query_next_image_response tsn SUCCESS
            (Some (manufacturer_id (img_key img), image_type (img_key img),
                   img_version img, image_size (img_header img)))) \<and>
   (\<forall>img. get_ota_image ota m t = Some img \<and> \<not> should_update ota img m t cur hw \<longrightarrow>
      handle_query_next_image ota fc m t cur hw tsn
        = query_next_image_response tsn NO_IMAGE_AVAILABLE None)"
  by (simp add: handle_query_next_image_def)

theorem query_next_image_cases_witness:
  "handle_query_next_image demo_provider 0 1 8 3 None 5
     = query_next_image_response 5 NO_IMAGE_AVAILABLE None \<and>
   handle_query_next_image demo_provider 0 4476 8 3 None 5
     = query_next_image_response 5 SUCCESS (Some (4476, 8, 7, 100)) \<and>
   handle_query_next_image demo_provider 0 4476 8 7 None 5
     = query_next_image_response 5 NO_IMAGE_AVAILABLE None"
  using query_next_image_cases [of demo_provider 1 8 0 3 None 5]
        query_next_image_cases [of demo_provider 4476 8 0 3 None 5]
        query_next_image_cases [of demo_provider 4476 8 0 7 None 5]
  by (simp add: demo_provider_def demo_image_def)




end
